theory Spec2Isabelle
  imports Complex_Main "HOL-Library.Word"
begin

section \<open>Data model\<close>

text \<open>
  JavaScript numbers are modelled by exact rationals (\<open>rat\<close>); integers that the code
  obtains from \<open>parseInt\<close>, page numbers and CSS pixel sizes are \<open>int\<close>. Rounding to
  doubles is not modelled. \<open>NaN\<close> and the infinities appear where the code can receive
  or produce them in an assignment to the scale: as the argument of \<open>setScale\<close> and as
  the quotient in \<open>fitToWidth\<close> (type \<open>jsnum\<close>); \<open>parseInt\<close> returns an option.
  Theorems about the other quotients carry the hypothesis that the divisor is positive.
\<close>

text \<open>\<open>interface PDFBBox { left; bottom; right; top }\<close> (page points, origin bottom-left).\<close>

record PDFBBox =
  bbox_left :: rat
  bbox_bottom :: rat
  bbox_right :: rat
  bbox_top :: rat

text \<open>\<open>interface CanvasRect { x; y; width; height }\<close> (CSS pixels, origin top-left).\<close>

record CanvasRect =
  rect_x :: rat
  rect_y :: rat
  rect_width :: rat
  rect_height :: rat

text \<open>The \<open>{ x, y }\<close> objects returned by the point conversions.\<close>

record Point =
  pt_x :: rat
  pt_y :: rat

text \<open>
  The rendering library's objects. A page handle is represented by the size of its
  default viewport (\<open>getViewport({ scale: 1.0 })\<close>); \<open>getViewport({ scale })\<close> of the
  library scales that size.
\<close>

record PDFPageProxy =
  page_width :: rat
  page_height :: rat

record PageViewport =
  vp_width :: rat
  vp_height :: rat

definition getViewport :: "PDFPageProxy \<Rightarrow> rat \<Rightarrow> PageViewport" where
  "getViewport page s = \<lparr>vp_width = page_width page * s, vp_height = page_height page * s\<rparr>"

text \<open>
  The fields of \<open>class PDFViewer\<close>. A loaded document is the list of its pages. The last
  size fields are the CSS size that \<open>renderPage\<close> writes to \<open>canvas.style\<close> and
  \<open>overlayCanvas.style\<close>; \<open>onPageChangeSet\<close> says whether the application has
  installed its \<open>onPageChange\<close> callback (\<open>onDocumentLoad\<close> is never assigned).
\<close>

record PDFViewer =
  pdfDocument :: "PDFPageProxy list option"
  viewerCurrentPage :: int
  viewerTotalPages :: int
  scale :: rat
  manualScale :: bool
  currentPageObject :: "PDFPageProxy option"
  currentViewport :: "PageViewport option"
  styleWidth :: int
  styleHeight :: int
  onPageChangeSet :: bool

text \<open>The field initialisers of the class; the canvas keeps the size \<open>w\<close>, \<open>h\<close> it had.\<close>

definition newPDFViewer :: "int \<Rightarrow> int \<Rightarrow> PDFViewer" where
  "newPDFViewer w h =
     \<lparr>pdfDocument = None, viewerCurrentPage = 1, viewerTotalPages = 0, scale = 1,
      manualScale = False, currentPageObject = None, currentViewport = None,
      styleWidth = w, styleHeight = h, onPageChangeSet = False\<rparr>"

section \<open>Coordinate conversion (pdf-viewer.ts)\<close>

definition getPageDimensions :: "PDFViewer \<Rightarrow> PageViewport option" where
  "getPageDimensions v =
     (case currentPageObject v of
        None \<Rightarrow> None
      | Some page \<Rightarrow> Some (getViewport page 1))"

definition canvasToPDF :: "PDFViewer \<Rightarrow> rat \<Rightarrow> rat \<Rightarrow> Point option" where
  "canvasToPDF v canvasX canvasY =
     (case currentViewport v of
        None \<Rightarrow> None
      | Some _ \<Rightarrow>
          (case getPageDimensions v of
             None \<Rightarrow> Some \<lparr>pt_x = 0, pt_y = 0\<rparr>
           | Some pageDims \<Rightarrow>
               Some \<lparr>pt_x = canvasX / scale v,
                     pt_y = vp_height pageDims - canvasY / scale v\<rparr>))"

definition pdfToCanvas :: "PDFViewer \<Rightarrow> rat \<Rightarrow> rat \<Rightarrow> Point option" where
  "pdfToCanvas v pdfX pdfY =
     (case currentViewport v of
        None \<Rightarrow> None
      | Some _ \<Rightarrow>
          (case getPageDimensions v of
             None \<Rightarrow> None
           | Some pageDims \<Rightarrow>
               Some \<lparr>pt_x = pdfX * scale v,
                     pt_y = (vp_height pageDims - pdfY) * scale v\<rparr>))"

definition canvasRectToPDFBbox :: "PDFViewer \<Rightarrow> CanvasRect \<Rightarrow> PDFBBox" where
  "canvasRectToPDFBbox v rect =
     (case (canvasToPDF v (rect_x rect) (rect_y rect),
            canvasToPDF v (rect_x rect + rect_width rect) (rect_y rect + rect_height rect)) of
        (Some topLeft, Some bottomRight) \<Rightarrow>
          \<lparr>bbox_left = pt_x topLeft, bbox_bottom = pt_y bottomRight,
           bbox_right = pt_x bottomRight, bbox_top = pt_y topLeft\<rparr>
      | _ \<Rightarrow> \<lparr>bbox_left = 0, bbox_bottom = 0, bbox_right = 0, bbox_top = 0\<rparr>)"

definition pdfBboxToCanvasRect :: "PDFViewer \<Rightarrow> PDFBBox \<Rightarrow> CanvasRect" where
  "pdfBboxToCanvasRect v bbox =
     (case (pdfToCanvas v (bbox_left bbox) (bbox_top bbox),
            pdfToCanvas v (bbox_right bbox) (bbox_bottom bbox)) of
        (Some topLeft, Some bottomRight) \<Rightarrow>
          \<lparr>rect_x = pt_x topLeft, rect_y = pt_y topLeft,
           rect_width = pt_x bottomRight - pt_x topLeft,
           rect_height = pt_y bottomRight - pt_y topLeft\<rparr>
      | _ \<Rightarrow> \<lparr>rect_x = 0, rect_y = 0, rect_width = 0, rect_height = 0\<rparr>)"

section \<open>Rendering and zoom (pdf-viewer.ts)\<close>

text \<open>
  What JavaScript can throw: an \<open>Error\<close> with its message, a string, another object or
  any other value (the last two with their \<open>String(...)\<close> rendering).
\<close>

datatype js_error =
    Error string
  | ThrownString string
  | ThrownObject string
  | ThrownOther string

text \<open>\<open>error instanceof Error ? error.message : String(error)\<close>\<close>

fun errorText :: "js_error \<Rightarrow> string" where
  "errorText (Error m) = m"
| "errorText (ThrownString t) = t"
| "errorText (ThrownObject t) = t"
| "errorText (ThrownOther t) = t"

text \<open>Decimal rendering of a number inside a template string.\<close>

fun showNat :: "nat \<Rightarrow> string" where
  "showNat n =
     (if n < 10 then [char_of (48 + n)]
      else showNat (n div 10) @ [char_of (48 + n mod 10)])"

definition showInt :: "int \<Rightarrow> string" where
  "showInt i = (if i < 0 then CHR ''-'' # showNat (nat (- i)) else showNat (nat i))"

text \<open>
  What a call of \<open>renderPage\<close> finds outside the viewer: the client size of
  \<open>#canvas-container\<close> (\<open>None\<close> when the element is missing), and whether the library's
  \<open>getPage\<close> or \<open>render\<close> promise rejects.
\<close>

record RenderEnv =
  container :: "(int \<times> int) option"
  getPageRejects :: "js_error option"
  renderRejects :: "js_error option"

text \<open>\<open>(containerEl?.clientWidth || 800) - 60\<close> and the same for the height with 600.\<close>

definition containerWidth :: "RenderEnv \<Rightarrow> rat" where
  "containerWidth env =
     of_int ((case container env of
                None \<Rightarrow> 800
              | Some (w, h) \<Rightarrow> if w = 0 then 800 else w) - 60)"

definition containerHeight :: "RenderEnv \<Rightarrow> rat" where
  "containerHeight env =
     of_int ((case container env of
                None \<Rightarrow> 600
              | Some (w, h) \<Rightarrow> if h = 0 then 600 else h) - 60)"

text \<open>\<open>Math.max(0.5, Math.min(scaleX, scaleY, 3.0))\<close> of the auto-fit branch.\<close>

definition fitScale :: "RenderEnv \<Rightarrow> PDFPageProxy \<Rightarrow> rat" where
  "fitScale env page =
     (let defaultViewport = getViewport page 1;
          scaleX = containerWidth env / vp_width defaultViewport;
          scaleY = containerHeight env / vp_height defaultViewport
      in max (1 / 2) (min (min scaleX scaleY) 3))"

definition getPage :: "RenderEnv \<Rightarrow> PDFPageProxy list \<Rightarrow> int \<Rightarrow> js_error + PDFPageProxy" where
  "getPage env doc pageNum =
     (case getPageRejects env of
        Some e \<Rightarrow> Inl e
      | None \<Rightarrow>
          if 1 \<le> pageNum \<and> nat (pageNum - 1) < length doc
          then Inr (doc ! nat (pageNum - 1))
          else Inl (Error ''Invalid page request.''))"

text \<open>
  \<open>renderPage\<close>: the two checks before the \<open>try\<close> throw unwrapped; a rejection inside
  the \<open>try\<close> is rethrown with the prefix. Assignments made before a throw stay. A
  result \<open>Inr\<close> means that the page was drawn and \<open>onPageChange\<close> was called.
\<close>

definition renderPage ::
  "RenderEnv \<Rightarrow> int \<Rightarrow> PDFViewer \<Rightarrow> (js_error + PageViewport) \<times> PDFViewer" where
  "renderPage env pageNum v =
     (case pdfDocument v of
        None \<Rightarrow> (Inl (Error ''No PDF document loaded''), v)
      | Some doc \<Rightarrow>
          if pageNum < 1 \<or> pageNum > viewerTotalPages v
          then (Inl (Error (''Invalid page number: '' @ showInt pageNum)), v)
          else
            (case getPage env doc pageNum of
               Inl e \<Rightarrow> (Inl (Error (''Failed to render page: '' @ errorText e)), v)
             | Inr page \<Rightarrow>
                 let v1 = v\<lparr>currentPageObject := Some page, viewerCurrentPage := pageNum\<rparr>;
                     v2 = (if \<not> manualScale v1 then v1\<lparr>scale := fitScale env page\<rparr> else v1);
                     viewport = getViewport page (scale v2);
                     v3 = v2\<lparr>currentViewport := Some viewport,
                             styleWidth := \<lfloor>vp_width viewport\<rfloor>,
                             styleHeight := \<lfloor>vp_height viewport\<rfloor>\<rparr>
                 in (case renderRejects env of
                       Some e \<Rightarrow> (Inl (Error (''Failed to render page: '' @ errorText e)), v3)
                     | None \<Rightarrow> (Inr viewport, v3))))"

text \<open>\<open>loadPDF\<close>; the argument is the outcome of the library's \<open>getDocument\<close>.\<close>

definition loadPDF ::
  "RenderEnv \<Rightarrow> js_error + PDFPageProxy list \<Rightarrow> PDFViewer \<Rightarrow> (js_error + int) \<times> PDFViewer" where
  "loadPDF env loaded v =
     (case loaded of
        Inl e \<Rightarrow> (Inl (Error (''Failed to load PDF: '' @ errorText e)), v)
      | Inr doc \<Rightarrow>
          let v1 = v\<lparr>pdfDocument := Some doc, viewerTotalPages := int (length doc)\<rparr> in
          (case renderPage env 1 v1 of
             (Inl e, v2) \<Rightarrow> (Inl (Error (''Failed to load PDF: '' @ errorText e)), v2)
           | (Inr _, v2) \<Rightarrow> (Inr (viewerTotalPages v2), v2)))"

definition getScale :: "PDFViewer \<Rightarrow> rat" where
  "getScale v = scale v"

definition isManuallyScaled :: "PDFViewer \<Rightarrow> bool" where
  "isManuallyScaled v = manualScale v"

text \<open>
  A JavaScript number as the argument of \<open>setScale\<close> and as the result of a division:
  a rational, an infinity or \<open>NaN\<close>.
\<close>

datatype jsnum = Num rat | PosInfinity | NegInfinity | NaN

text \<open>\<open>Math.min\<close> and \<open>Math.max\<close> of two numbers: \<open>NaN\<close> as soon as one of them is.\<close>

fun jsMin :: "jsnum \<Rightarrow> jsnum \<Rightarrow> jsnum" where
  "jsMin NaN b = NaN"
| "jsMin a NaN = NaN"
| "jsMin NegInfinity b = NegInfinity"
| "jsMin a NegInfinity = NegInfinity"
| "jsMin PosInfinity b = b"
| "jsMin a PosInfinity = a"
| "jsMin (Num a) (Num b) = Num (min a b)"

fun jsMax :: "jsnum \<Rightarrow> jsnum \<Rightarrow> jsnum" where
  "jsMax NaN b = NaN"
| "jsMax a NaN = NaN"
| "jsMax PosInfinity b = PosInfinity"
| "jsMax a PosInfinity = PosInfinity"
| "jsMax NegInfinity b = b"
| "jsMax a NegInfinity = a"
| "jsMax (Num a) (Num b) = Num (max a b)"

text \<open>The quotient \<open>a / b\<close> of two rationals, where \<open>b\<close> is not a negative zero.\<close>

definition jsDiv :: "rat \<Rightarrow> rat \<Rightarrow> jsnum" where
  "jsDiv a b =
     (if b \<noteq> 0 then Num (a / b)
      else if 0 < a then PosInfinity
      else if a < 0 then NegInfinity
      else NaN)"

text \<open>
  The outcome of an operation that assigns \<open>this.scale\<close>. The record \<open>PDFViewer\<close> holds
  a rational scale. \<open>Scaled x\<close>: the assigned value is a rational and \<open>x\<close> is what the
  operation leaves. \<open>ScaleIs n\<close>: \<open>this.scale\<close> now holds \<open>n\<close>, which is not a rational;
  such a viewer is not followed further.
\<close>

datatype 'a scaled = Scaled 'a | ScaleIs jsnum

text \<open>
  \<open>setScale\<close>: \<open>this.scale = Math.max(0.5, Math.min(3.0, newScale))\<close>, then
  \<open>manualScale = true\<close> and \<open>renderPage(this.currentPage)\<close>.
\<close>

definition setScale ::
  "RenderEnv \<Rightarrow> jsnum \<Rightarrow> PDFViewer \<Rightarrow> ((js_error + PageViewport) \<times> PDFViewer) scaled" where
  "setScale env newScale v =
     (case jsMax (Num (1 / 2)) (jsMin (Num 3) newScale) of
        Num s \<Rightarrow>
          Scaled (renderPage env (viewerCurrentPage v) (v\<lparr>scale := s, manualScale := True\<rparr>))
      | other \<Rightarrow> ScaleIs other)"

definition zoomIn ::
  "RenderEnv \<Rightarrow> PDFViewer \<Rightarrow> ((js_error + PageViewport) \<times> PDFViewer) scaled" where
  "zoomIn env v = setScale env (Num (scale v * (5 / 4))) v"

definition zoomOut ::
  "RenderEnv \<Rightarrow> PDFViewer \<Rightarrow> ((js_error + PageViewport) \<times> PDFViewer) scaled" where
  "zoomOut env v = setScale env (Num (scale v / (5 / 4))) v"

text \<open>The operations below return nothing; \<open>None\<close> is normal completion.\<close>

definition completion :: "(js_error + 'a) \<times> PDFViewer \<Rightarrow> js_error option \<times> PDFViewer" where
  "completion r = (case r of (Inl e, v) \<Rightarrow> (Some e, v) | (Inr _, v) \<Rightarrow> (None, v))"

definition fitToWidth :: "RenderEnv \<Rightarrow> PDFViewer \<Rightarrow> (js_error option \<times> PDFViewer) scaled" where
  "fitToWidth env v =
     (case currentPageObject v of
        None \<Rightarrow> Scaled (None, v)
      | Some page \<Rightarrow>
          map_scaled completion
            (setScale env (jsDiv (containerWidth env) (vp_width (getViewport page 1))) v))"

definition fitToPage :: "RenderEnv \<Rightarrow> PDFViewer \<Rightarrow> js_error option \<times> PDFViewer" where
  "fitToPage env v = completion (renderPage env (viewerCurrentPage v) (v\<lparr>manualScale := False\<rparr>))"

definition nextPage :: "RenderEnv \<Rightarrow> PDFViewer \<Rightarrow> js_error option \<times> PDFViewer" where
  "nextPage env v =
     (if viewerCurrentPage v < viewerTotalPages v
      then completion (renderPage env (viewerCurrentPage v + 1) v)
      else (None, v))"

definition previousPage :: "RenderEnv \<Rightarrow> PDFViewer \<Rightarrow> js_error option \<times> PDFViewer" where
  "previousPage env v =
     (if viewerCurrentPage v > 1
      then completion (renderPage env (viewerCurrentPage v - 1) v)
      else (None, v))"

definition goToPage ::
  "RenderEnv \<Rightarrow> int \<Rightarrow> PDFViewer \<Rightarrow> (js_error + PageViewport) \<times> PDFViewer" where
  "goToPage env pageNum v = renderPage env pageNum v"

text \<open>
  A session with the viewer: any sequence of its public operations, each with the
  environment it runs in. A throwing operation leaves the state it reached. The session
  ends when \<open>this.scale\<close> stops being a rational.
\<close>

datatype ViewerOp =
    LoadPDF "js_error + PDFPageProxy list"
  | RenderPage int
  | GoToPage int
  | NextPage
  | PreviousPage
  | SetScale jsnum
  | ZoomIn
  | ZoomOut
  | FitToWidth
  | FitToPage

fun perform :: "RenderEnv \<Rightarrow> ViewerOp \<Rightarrow> PDFViewer \<Rightarrow> PDFViewer scaled" where
  "perform env (LoadPDF loaded) v = Scaled (snd (loadPDF env loaded v))"
| "perform env (RenderPage n) v = Scaled (snd (renderPage env n v))"
| "perform env (GoToPage n) v = Scaled (snd (goToPage env n v))"
| "perform env NextPage v = Scaled (snd (nextPage env v))"
| "perform env PreviousPage v = Scaled (snd (previousPage env v))"
| "perform env (SetScale s) v = map_scaled snd (setScale env s v)"
| "perform env ZoomIn v = map_scaled snd (zoomIn env v)"
| "perform env ZoomOut v = map_scaled snd (zoomOut env v)"
| "perform env FitToWidth v = map_scaled snd (fitToWidth env v)"
| "perform env FitToPage v = Scaled (snd (fitToPage env v))"

fun performAll :: "(RenderEnv \<times> ViewerOp) list \<Rightarrow> PDFViewer \<Rightarrow> PDFViewer scaled" where
  "performAll [] v = Scaled v"
| "performAll ((env, op) # ops) v =
     (case perform env op v of
        Scaled v1 \<Rightarrow> performAll ops v1
      | ScaleIs n \<Rightarrow> ScaleIs n)"

text \<open>What \<open>getScale()\<close> returns after a session.\<close>

fun scaleAfter :: "PDFViewer scaled \<Rightarrow> jsnum" where
  "scaleAfter (Scaled v) = Num (getScale v)"
| "scaleAfter (ScaleIs n) = n"

text \<open>No \<open>setScale\<close> call of the session has the argument \<open>NaN\<close>.\<close>

fun noNaNArgument :: "(RenderEnv \<times> ViewerOp) list \<Rightarrow> bool" where
  "noNaNArgument [] = True"
| "noNaNArgument ((env, SetScale s) # ops) = (s \<noteq> NaN \<and> noNaNArgument ops)"
| "noNaNArgument (_ # ops) = noNaNArgument ops"

text \<open>Every page of every document loaded in the session has a positive size.\<close>

definition positivePage :: "PDFPageProxy \<Rightarrow> bool" where
  "positivePage page \<longleftrightarrow> 0 < page_width page \<and> 0 < page_height page"

fun positivePages :: "(RenderEnv \<times> ViewerOp) list \<Rightarrow> bool" where
  "positivePages [] = True"
| "positivePages ((env, LoadPDF (Inr doc)) # ops) = (list_all positivePage doc \<and> positivePages ops)"
| "positivePages (_ # ops) = positivePages ops"

section \<open>Selection overlay (bbox-overlay.ts)\<close>

text \<open>The selection state of \<open>class BBoxOverlay\<close>.\<close>

record BBoxOverlay =
  isDrawing :: bool
  startX :: rat
  startY :: rat
  currentX :: rat
  currentY :: rat
  currentBbox :: "PDFBBox option"

definition newBBoxOverlay :: BBoxOverlay where
  "newBBoxOverlay =
     \<lparr>isDrawing = False, startX = 0, startY = 0, currentX = 0, currentY = 0,
      currentBbox = None\<rparr>"

text \<open>The result of \<open>overlayCanvas.getBoundingClientRect()\<close>.\<close>

record DOMRect =
  dom_left :: rat
  dom_top :: rat
  dom_width :: rat
  dom_height :: rat

text \<open>\<open>getCanvasCoordinates\<close> and \<open>getTouchCoordinates\<close>: the position is not clamped.\<close>

definition getCanvasCoordinates :: "DOMRect \<Rightarrow> rat \<Rightarrow> rat \<Rightarrow> Point" where
  "getCanvasCoordinates rect clientX clientY =
     \<lparr>pt_x = clientX - dom_left rect, pt_y = clientY - dom_top rect\<rparr>"

definition getCanvasBbox :: "DOMRect \<Rightarrow> BBoxOverlay \<Rightarrow> CanvasRect" where
  "getCanvasBbox rect ov =
     (let canvasWidth = dom_width rect;
          canvasHeight = dom_height rect;
          x1 = min (startX ov) (currentX ov);
          y1 = min (startY ov) (currentY ov);
          x2 = max (startX ov) (currentX ov);
          y2 = max (startY ov) (currentY ov);
          x1' = max 0 (min x1 canvasWidth);
          y1' = max 0 (min y1 canvasHeight);
          x2' = max 0 (min x2 canvasWidth);
          y2' = max 0 (min y2 canvasHeight)
      in \<lparr>rect_x = x1', rect_y = y1', rect_width = x2' - x1', rect_height = y2' - y1'\<rparr>)"

text \<open>\<open>canvasBboxToPdf\<close>: \<open>null\<close> only when the overlay has no viewer.\<close>

definition canvasBboxToPdf :: "PDFViewer option \<Rightarrow> CanvasRect \<Rightarrow> PDFBBox option" where
  "canvasBboxToPdf viewer canvasBbox =
     (case viewer of
        None \<Rightarrow> None
      | Some v \<Rightarrow> Some (canvasRectToPDFBbox v canvasBbox))"

definition startDrawing :: "rat \<Rightarrow> rat \<Rightarrow> BBoxOverlay \<Rightarrow> BBoxOverlay" where
  "startDrawing px py ov =
     ov\<lparr>isDrawing := True, startX := px, startY := py, currentX := px, currentY := py\<rparr>"

text \<open>
  \<open>updateDrawing\<close> and \<open>finishDrawing\<close> return the new overlay state and the box they
  hand to the \<open>onBboxChange\<close> and \<open>onBboxComplete\<close> callback.
\<close>

definition updateDrawing ::
  "PDFViewer option \<Rightarrow> DOMRect \<Rightarrow> rat \<Rightarrow> rat \<Rightarrow> BBoxOverlay \<Rightarrow> BBoxOverlay \<times> PDFBBox option" where
  "updateDrawing viewer rect px py ov =
     (let ov1 = ov\<lparr>currentX := px, currentY := py\<rparr>
      in (ov1, canvasBboxToPdf viewer (getCanvasBbox rect ov1)))"

definition finishDrawing ::
  "PDFViewer option \<Rightarrow> DOMRect \<Rightarrow> rat \<Rightarrow> rat \<Rightarrow> BBoxOverlay \<Rightarrow> BBoxOverlay \<times> PDFBBox option" where
  "finishDrawing viewer rect px py ov =
     (let ov1 = ov\<lparr>currentX := px, currentY := py, isDrawing := False\<rparr>;
          canvasBbox = getCanvasBbox rect ov1;
          pdfBbox = canvasBboxToPdf viewer canvasBbox
      in (ov1\<lparr>currentBbox := pdfBbox\<rparr>, pdfBbox))"

definition setBbox :: "PDFViewer option \<Rightarrow> PDFBBox option \<Rightarrow> BBoxOverlay \<Rightarrow> BBoxOverlay" where
  "setBbox viewer pdfBbox ov =
     (case (viewer, pdfBbox) of
        (Some v, Some bbox) \<Rightarrow>
          let canvasRect = pdfBboxToCanvasRect v bbox
          in ov\<lparr>currentBbox := Some bbox,
                startX := rect_x canvasRect,
                startY := rect_y canvasRect,
                currentX := rect_x canvasRect + rect_width canvasRect,
                currentY := rect_y canvasRect + rect_height canvasRect\<rparr>
      | _ \<Rightarrow> ov\<lparr>currentBbox := None\<rparr>)"

definition getBbox :: "BBoxOverlay \<Rightarrow> PDFBBox option" where
  "getBbox ov = currentBbox ov"

section \<open>Page-range parser (main.ts)\<close>

text \<open>\<open>String.prototype.split\<close> with a one-character separator.\<close>

fun split_on :: "char \<Rightarrow> string \<Rightarrow> string list" where
  "split_on sep [] = [[]]"
| "split_on sep (c # cs) =
     (if c = sep then [] # split_on sep cs
      else (case split_on sep cs of
              [] \<Rightarrow> [[c]]
            | p # ps \<Rightarrow> (c # p) # ps))"

text \<open>
  The white space that \<open>trim\<close> and \<open>parseInt\<close> skip, as far as it is one byte long:
  space, tab, line feed, vertical tab, form feed, carriage return.
\<close>

definition isWhiteSpace :: "char \<Rightarrow> bool" where
  "isWhiteSpace c \<longleftrightarrow> c \<in> set [CHR '' '', CHR 0x09, CHR 0x0A, CHR 0x0B, CHR 0x0C, CHR 0x0D]"

definition trim :: "string \<Rightarrow> string" where
  "trim s = rev (dropWhile isWhiteSpace (rev (dropWhile isWhiteSpace s)))"

definition digitValue :: "char \<Rightarrow> nat option" where
  "digitValue c =
     (let n = (of_char c :: nat) in
      if 48 \<le> n \<and> n \<le> 57 then Some (n - 48)
      else if 97 \<le> n \<and> n \<le> 122 then Some (n - 87)
      else if 65 \<le> n \<and> n \<le> 90 then Some (n - 55)
      else None)"

definition isDigit :: "nat \<Rightarrow> char \<Rightarrow> bool" where
  "isDigit radix c = (case digitValue c of None \<Rightarrow> False | Some d \<Rightarrow> d < radix)"

definition digitsValue :: "nat \<Rightarrow> string \<Rightarrow> nat" where
  "digitsValue radix ds =
     foldl (\<lambda>acc c. acc * radix + (case digitValue c of None \<Rightarrow> 0 | Some d \<Rightarrow> d)) 0 ds"

definition parseDigits :: "nat \<Rightarrow> string \<Rightarrow> nat option" where
  "parseDigits radix s =
     (let z = takeWhile (isDigit radix) s in
      if z = [] then None else Some (digitsValue radix z))"

text \<open>
  \<open>parseInt(str)\<close> without a radix: leading white space, an optional sign, an
  optional \<open>0x\<close> prefix, then the longest run of digits; \<open>None\<close> is \<open>NaN\<close>. The
  result is the integer that the digits denote; JavaScript rounds it to a double, which
  is the same number as long as its magnitude is below \<open>2^53\<close>.
\<close>

definition parseInt :: "string \<Rightarrow> int option" where
  "parseInt str =
     (let s = dropWhile isWhiteSpace str;
          (sign, s1) = (case s of
                          [] \<Rightarrow> (1 :: int, s)
                        | c # cs \<Rightarrow> if c = CHR ''-'' then (- 1, cs)
                                    else if c = CHR ''+'' then (1, cs) else (1, s));
          (radix, s2) = (case s1 of
                           a # b # cs \<Rightarrow>
                             if a = CHR ''0'' \<and> (b = CHR ''x'' \<or> b = CHR ''X'')
                             then (16 :: nat, cs) else (10, s1)
                         | _ \<Rightarrow> (10, s1))
      in map_option (\<lambda>n. sign * int n) (parseDigits radix s2))"

text \<open>\<open>Set.prototype.add\<close>; the list keeps the insertion order of the set.\<close>

definition setAdd :: "int list \<Rightarrow> int \<Rightarrow> int list" where
  "setAdd pages p = (if p \<in> set pages then pages else pages @ [p])"

text \<open>
  \<open>for (let i = start; i <= end; i++) pages.add(i - 1)\<close>; a comparison with \<open>NaN\<close>
  is false, so the loop body does not run when either bound is \<open>NaN\<close>.
\<close>

definition addRange :: "int list \<Rightarrow> int option \<Rightarrow> int option \<Rightarrow> int list" where
  "addRange pages start end =
     (case (start, end) of
        (Some s, Some e) \<Rightarrow> foldl (\<lambda>ps i. setAdd ps (i - 1)) pages [s..e]
      | _ \<Rightarrow> pages)"

text \<open>The body of the loop over the parts.\<close>

definition addPart :: "int list \<Rightarrow> string \<Rightarrow> int list" where
  "addPart pages part =
     (if CHR ''-'' \<in> set part then
        (case map (\<lambda>s. parseInt (trim s)) (split_on CHR ''-'' part) of
           start # end # _ \<Rightarrow> addRange pages start end
         | _ \<Rightarrow> pages)
      else
        (case parseInt part of
           None \<Rightarrow> pages
         | Some page \<Rightarrow> setAdd pages (page - 1)))"

definition parsePageRange :: "string \<Rightarrow> int list" where
  "parsePageRange text =
     sort (foldl addPart [] (map trim (split_on CHR '','' text)))"

section \<open>Application controller (main.ts)\<close>

type_synonym bytes = "8 word list"

text \<open>
  The global variables of the module, and the parts of the page that the handlers
  below write: the loading overlay, the alerts shown, the bounding-box panel
  (\<open>None\<close> when hidden), the clip check box and the files offered for download. The
  page's elements are taken to exist. Thumbnails, button states and the zoom label are
  left out.
\<close>

record AppState =
  pdfViewer :: "PDFViewer option"
  bboxOverlay :: "BBoxOverlay option"
  currentPDFData :: "bytes option"
  currentPDFFilename :: string
  currentPage :: int
  totalPages :: int
  pageBboxes :: "int \<rightharpoonup> PDFBBox"
  loadingMessage :: string
  loadingVisible :: bool
  alerts :: "string list"
  detectedBbox :: "PDFBBox option"
  clipContentChecked :: bool
  downloads :: "(string \<times> bytes) list"

text \<open>The state after \<open>initialize\<close> with a canvas of CSS size \<open>w\<close>, \<open>h\<close>.\<close>

definition initialApp :: "int \<Rightarrow> int \<Rightarrow> AppState" where
  "initialApp w h =
     \<lparr>pdfViewer = Some (newPDFViewer w h), bboxOverlay = Some newBBoxOverlay,
      currentPDFData = None, currentPDFFilename = ''document.pdf'',
      currentPage = 1, totalPages = 0, pageBboxes = Map.empty,
      loadingMessage = [], loadingVisible = False, alerts = [],
      detectedBbox = None, clipContentChecked = False, downloads = []\<rparr>"

definition showLoading :: "string \<Rightarrow> AppState \<Rightarrow> AppState" where
  "showLoading message app = app\<lparr>loadingMessage := message, loadingVisible := True\<rparr>"

definition hideLoading :: "AppState \<Rightarrow> AppState" where
  "hideLoading app = app\<lparr>loadingVisible := False\<rparr>"

definition alert :: "string \<Rightarrow> AppState \<Rightarrow> AppState" where
  "alert message app = app\<lparr>alerts := alerts app @ [message]\<rparr>"

definition updateBboxDisplay :: "PDFBBox option \<Rightarrow> AppState \<Rightarrow> AppState" where
  "updateBboxDisplay bbox app = app\<lparr>detectedBbox := bbox\<rparr>"

definition autoEnableClipMode :: "AppState \<Rightarrow> AppState" where
  "autoEnableClipMode app =
     (if \<not> clipContentChecked app then app\<lparr>clipContentChecked := True\<rparr> else app)"

text \<open>The two callbacks that \<open>initialize\<close> gives to the overlay.\<close>

definition onBboxChange :: "PDFBBox option \<Rightarrow> AppState \<Rightarrow> AppState" where
  "onBboxChange pdfBbox app =
     (case pdfBbox of
        None \<Rightarrow> app
      | Some bbox \<Rightarrow> updateBboxDisplay (Some bbox) app)"

definition onBboxComplete :: "PDFBBox option \<Rightarrow> AppState \<Rightarrow> AppState" where
  "onBboxComplete pdfBbox app =
     (case pdfBbox of
        None \<Rightarrow> app
      | Some bbox \<Rightarrow>
          autoEnableClipMode
            (updateBboxDisplay (Some bbox)
               (app\<lparr>pageBboxes := (pageBboxes app)(currentPage app - 1 \<mapsto> bbox)\<rparr>)))"

text \<open>
  The mouse handlers of the overlay, followed by the callback they trigger. The overlay
  holds a reference to the application's viewer. The arguments are the bounding
  rectangle of the overlay canvas and the pointer's client position.
\<close>

definition onMouseDown :: "DOMRect \<Rightarrow> rat \<Rightarrow> rat \<Rightarrow> AppState \<Rightarrow> AppState" where
  "onMouseDown rect clientX clientY app =
     (case bboxOverlay app of
        None \<Rightarrow> app
      | Some ov \<Rightarrow>
          let pos = getCanvasCoordinates rect clientX clientY
          in app\<lparr>bboxOverlay := Some (startDrawing (pt_x pos) (pt_y pos) ov)\<rparr>)"

definition onMouseMove :: "DOMRect \<Rightarrow> rat \<Rightarrow> rat \<Rightarrow> AppState \<Rightarrow> AppState" where
  "onMouseMove rect clientX clientY app =
     (case bboxOverlay app of
        None \<Rightarrow> app
      | Some ov \<Rightarrow>
          if \<not> isDrawing ov then app
          else
            let pos = getCanvasCoordinates rect clientX clientY;
                (ov1, pdfBbox) = updateDrawing (pdfViewer app) rect (pt_x pos) (pt_y pos) ov
            in onBboxChange pdfBbox (app\<lparr>bboxOverlay := Some ov1\<rparr>))"

definition onMouseUp :: "DOMRect \<Rightarrow> rat \<Rightarrow> rat \<Rightarrow> AppState \<Rightarrow> AppState" where
  "onMouseUp rect clientX clientY app =
     (case bboxOverlay app of
        None \<Rightarrow> app
      | Some ov \<Rightarrow>
          if \<not> isDrawing ov then app
          else
            let pos = getCanvasCoordinates rect clientX clientY;
                (ov1, pdfBbox) = finishDrawing (pdfViewer app) rect (pt_x pos) (pt_y pos) ov
            in onBboxComplete pdfBbox (app\<lparr>bboxOverlay := Some ov1\<rparr>))"

definition renderBboxOverlay :: "AppState \<Rightarrow> AppState" where
  "renderBboxOverlay app =
     (case bboxOverlay app of
        None \<Rightarrow> app
      | Some ov \<Rightarrow>
          (case pageBboxes app (currentPage app - 1) of
             Some bbox \<Rightarrow>
               updateBboxDisplay (Some bbox)
                 (app\<lparr>bboxOverlay := Some (setBbox (pdfViewer app) (Some bbox) ov)\<rparr>)
           | None \<Rightarrow> app\<lparr>detectedBbox := None\<rparr>))"

text \<open>The \<open>onPageChange\<close> callback that \<open>handleFileUpload\<close> installs in the viewer.\<close>

definition onPageChange :: "int \<Rightarrow> int \<Rightarrow> AppState \<Rightarrow> AppState" where
  "onPageChange pageNum totalCount app = renderBboxOverlay (app\<lparr>currentPage := pageNum\<rparr>)"

text \<open>The \<open>catch\<close> branch of \<open>handleFileUpload\<close>.\<close>

definition loadFailed :: "js_error \<Rightarrow> AppState \<Rightarrow> AppState" where
  "loadFailed error app =
     (let errorMessage = (case error of Error m \<Rightarrow> m | _ \<Rightarrow> ''Unknown error'')
      in hideLoading (alert (''Failed to load PDF: '' @ errorMessage) app))"

text \<open>
  \<open>handleFileUpload\<close>. The arguments are the environment of the first render, the
  file's name, the outcome of \<open>file.arrayBuffer()\<close> and the library's \<open>getDocument\<close>.
  The \<open>fitToPage\<close> that the handler schedules with \<open>setTimeout\<close> runs after it, as an
  operation of its own.
\<close>

definition handleFileUpload ::
  "RenderEnv \<Rightarrow> string \<Rightarrow> js_error + bytes \<Rightarrow> (bytes \<Rightarrow> js_error + PDFPageProxy list)
     \<Rightarrow> AppState \<Rightarrow> AppState" where
  "handleFileUpload env fileName arrayBuffer getDocument app =
     (let app1 = showLoading ''Loading PDF...'' app in
      case arrayBuffer of
        Inl e \<Rightarrow> loadFailed e app1
      | Inr data \<Rightarrow>
          let app2 = app1\<lparr>currentPDFData := Some data, currentPDFFilename := fileName,
                          pageBboxes := Map.empty\<rparr>
          in (case pdfViewer app2 of
                None \<Rightarrow> loadFailed (Error ''pdfViewer is null'') app2
              | Some v \<Rightarrow>
                  (case loadPDF env (getDocument data) v of
                     (Inl e, v1) \<Rightarrow> loadFailed e (app2\<lparr>pdfViewer := Some v1\<rparr>)
                   | (Inr n, v1) \<Rightarrow>
                       let app3 = app2\<lparr>pdfViewer := Some v1\<rparr>;
                           app4 = (if onPageChangeSet v1 then onPageChange 1 n app3 else app3);
                           app5 = app4\<lparr>totalPages := n, currentPage := 1,
                                       pdfViewer := Some (v1\<lparr>onPageChangeSet := True\<rparr>)\<rparr>
                       in hideLoading app5)))"

text \<open>The message that the \<open>catch\<close> branches of \<open>handleAutoDetect\<close> and \<open>handleCrop\<close> build.\<close>

fun errorMessageOf :: "js_error \<Rightarrow> string" where
  "errorMessageOf (Error m) = m"
| "errorMessageOf (ThrownString t) = t"
| "errorMessageOf (ThrownObject t) = t"
| "errorMessageOf (ThrownOther t) = ''Unknown error''"

definition consoleHint :: string where
  "consoleHint = [CHR 0x0A, CHR 0x0A] @ ''Check browser console (F12) for full error details.''"

text \<open>\<open>handleAutoDetect\<close>; the first argument is the external module's \<open>detectBbox\<close>.\<close>

definition handleAutoDetect :: "(bytes \<Rightarrow> int \<Rightarrow> js_error + PDFBBox) \<Rightarrow> AppState \<Rightarrow> AppState" where
  "handleAutoDetect detectBbox app =
     (case (currentPDFData app, bboxOverlay app) of
        (Some data, Some ov) \<Rightarrow>
          let app1 = showLoading ''Detecting crop region...'' app in
          (case detectBbox data (currentPage app1 - 1) of
             Inl e \<Rightarrow>
               hideLoading
                 (alert (''Failed to detect crop region: '' @ errorMessageOf e @ consoleHint) app1)
           | Inr bbox \<Rightarrow>
               let pdfBbox = \<lparr>bbox_left = bbox_left bbox, bbox_bottom = bbox_bottom bbox,
                              bbox_right = bbox_right bbox, bbox_top = bbox_top bbox\<rparr>;
                   app2 = app1\<lparr>pageBboxes := (pageBboxes app1)(currentPage app1 - 1 \<mapsto> pdfBbox)\<rparr>;
                   app3 = app2\<lparr>bboxOverlay := Some (setBbox (pdfViewer app2) (Some pdfBbox) ov)\<rparr>
               in hideLoading (updateBboxDisplay (Some pdfBbox) app3))
      | _ \<Rightarrow> app)"

text \<open>
  The form that \<open>handleCrop\<close> reads: each margin field as \<open>parseFloat\<close> reads it
  (\<open>None\<close> for \<open>NaN\<close>), the shrink check box, the value of the page-range select
  (\<open>None\<close> when the element is missing) and the custom range text.
\<close>

record CropForm =
  marginLeft :: "rat option"
  marginTop :: "rat option"
  marginRight :: "rat option"
  marginBottom :: "rat option"
  shrinkToContent :: bool
  pageRangeSelect :: "string option"
  pageRangeText :: string

record WasmCropOptions =
  opt_left :: rat
  opt_top :: rat
  opt_right :: rat
  opt_bottom :: rat
  opt_shrink_to_content :: bool
  opt_clip_content :: bool

definition getPageRange :: "CropForm \<Rightarrow> AppState \<Rightarrow> int list option" where
  "getPageRange form app =
     (case pageRangeSelect form of
        None \<Rightarrow> None
      | Some selected \<Rightarrow>
          if selected = ''all'' then None
          else if selected = ''current'' then Some [currentPage app - 1]
          else if selected = ''custom'' then
            (let pages = parsePageRange (pageRangeText form)
             in if length pages > 0 then Some pages else None)
          else None)"

text \<open>\<open>currentPDFFilename.replace(/\.pdf$/i, '')\<close>\<close>

definition stripPdfSuffix :: "string \<Rightarrow> string" where
  "stripPdfSuffix name =
     (case rev name of
        f # d # p # dot # base \<Rightarrow>
          if dot = CHR ''.'' \<and> (p = CHR ''p'' \<or> p = CHR ''P'') \<and> (d = CHR ''d'' \<or> d = CHR ''D'')
             \<and> (f = CHR ''f'' \<or> f = CHR ''F'')
          then rev base else name
      | _ \<Rightarrow> name)"

definition downloadPDF :: "bytes \<Rightarrow> string \<Rightarrow> AppState \<Rightarrow> AppState" where
  "downloadPDF uint8Array filename app = app\<lparr>downloads := downloads app @ [(filename, uint8Array)]\<rparr>"

text \<open>
  The \<open>options\<close> object and the \<open>bboxesObject\<close> that \<open>handleCrop\<close> builds:
  \<open>parseFloat(...) || 0\<close> for each margin, and the selection map or \<open>null\<close> when it
  is empty.
\<close>

definition cropOptions :: "CropForm \<Rightarrow> AppState \<Rightarrow> WasmCropOptions" where
  "cropOptions form app =
     (let orZero = (\<lambda>m. case m of None \<Rightarrow> 0 | Some r \<Rightarrow> r)
      in \<lparr>opt_left = orZero (marginLeft form), opt_top = orZero (marginTop form),
          opt_right = orZero (marginRight form), opt_bottom = orZero (marginBottom form),
          opt_shrink_to_content = shrinkToContent form,
          opt_clip_content = clipContentChecked app\<rparr>)"

definition bboxesObject :: "AppState \<Rightarrow> (int \<rightharpoonup> PDFBBox) option" where
  "bboxesObject app = (if dom (pageBboxes app) \<noteq> {} then Some (pageBboxes app) else None)"

text \<open>\<open>handleCrop\<close>; the first argument is the external module's \<open>cropPdf\<close>.\<close>

definition handleCrop ::
  "(bytes \<Rightarrow> WasmCropOptions \<Rightarrow> (int \<rightharpoonup> PDFBBox) option \<Rightarrow> int list option \<Rightarrow> js_error + bytes)
     \<Rightarrow> CropForm \<Rightarrow> AppState \<Rightarrow> AppState" where
  "handleCrop cropPdf form app =
     (case currentPDFData app of
        None \<Rightarrow> app
      | Some data \<Rightarrow>
          let app1 = showLoading ''Cropping PDF...'' app;
              options = cropOptions form app1;
              pageRange = getPageRange form app1
          in (case cropPdf data options (bboxesObject app1) pageRange of
                Inl e \<Rightarrow>
                  hideLoading (alert (''Failed to crop PDF: '' @ errorMessageOf e @ consoleHint) app1)
              | Inr croppedPDF \<Rightarrow>
                  hideLoading
                    (downloadPDF croppedPDF
                       (stripPdfSuffix (currentPDFFilename app1) @ ''-crop.pdf'') app1)))"

section \<open>Predicates and sample values used in the statements\<close>

text \<open>A viewer showing the page \<open>page\<close> at scale \<open>s\<close>, for concrete evaluation.\<close>

definition showing :: "PDFPageProxy \<Rightarrow> rat \<Rightarrow> PDFViewer" where
  "showing page s =
     \<lparr>pdfDocument = Some [page], viewerCurrentPage = 1, viewerTotalPages = 1, scale = s,
      manualScale = False, currentPageObject = Some page,
      currentViewport = Some (getViewport page s),
      styleWidth = \<lfloor>vp_width (getViewport page s)\<rfloor>,
      styleHeight = \<lfloor>vp_height (getViewport page s)\<rfloor>,
      onPageChangeSet = False\<rparr>"

definition a4 :: PDFPageProxy where
  "a4 = \<lparr>page_width = 595, page_height = 842\<rparr>"

text \<open>The invariant of the render scale.\<close>

definition scaleInRange :: "PDFViewer \<Rightarrow> bool" where
  "scaleInRange v \<longleftrightarrow> 1 / 2 \<le> scale v \<and> scale v \<le> 3"

text \<open>A container of 1260 by 1000 pixels in which nothing rejects, and a zoom session.\<close>

definition wide :: RenderEnv where
  "wide = \<lparr>container = Some (1260, 1000), getPageRejects = None, renderRejects = None\<rparr>"

definition session :: "(RenderEnv \<times> ViewerOp) list" where
  "session =
     [(wide, LoadPDF (Inr [a4])), (wide, ZoomIn), (wide, ZoomIn), (wide, ZoomIn),
      (wide, ZoomIn), (wide, ZoomIn), (wide, ZoomIn), (wide, FitToPage),
      (wide, SetScale (Num (1 / 10)))]"


text \<open>
  A viewer holding a one-page A4 document, the same viewer after \<open>renderPage(1)\<close> in the
  container above (scale 470/421, canvas 664 by 940), and the overlay's bounding rectangle
  on that canvas.
\<close>

definition loadedViewer :: PDFViewer where
  "loadedViewer = (newPDFViewer 300 150)\<lparr>pdfDocument := Some [a4], viewerTotalPages := 1\<rparr>"

definition fittedViewer :: PDFViewer where
  "fittedViewer = snd (renderPage wide 1 loadedViewer)"

definition overlayRect :: DOMRect where
  "overlayRect = \<lparr>dom_left = 20, dom_top = 80, dom_width = 664, dom_height = 940\<rparr>"

text \<open>
  The application with that document loaded, the same after a mouse press at client
  position (120, 180), and with a selection stored for the first page.
\<close>

definition readyApp :: AppState where
  "readyApp =
     (initialApp 300 150)\<lparr>pdfViewer := Some fittedViewer,
        currentPDFData := Some [37, 80, 68, 70], currentPDFFilename := ''paper.pdf'',
        totalPages := 1\<rparr>"

definition drawingApp :: AppState where
  "drawingApp = onMouseDown overlayRect 120 180 readyApp"

text \<open>The rectangles that the conversions return without a rendered page.\<close>

definition zeroBbox :: PDFBBox where
  "zeroBbox = \<lparr>bbox_left = 0, bbox_bottom = 0, bbox_right = 0, bbox_top = 0\<rparr>"

definition zeroRect :: CanvasRect where
  "zeroRect = \<lparr>rect_x = 0, rect_y = 0, rect_width = 0, rect_height = 0\<rparr>"

definition selectedApp :: AppState where
  "selectedApp =
     readyApp\<lparr>pageBboxes := [0 \<mapsto> \<lparr>bbox_left = 50, bbox_bottom = 60, bbox_right = 500,
                                     bbox_top = 700\<rparr>]\<rparr>"

text \<open>External calls that reject, and two states of the crop form.\<close>

definition rejecting :: "bytes \<Rightarrow> js_error + PDFPageProxy list" where
  "rejecting data = Inl (Error ''Invalid PDF structure.'')"

definition failingCrop ::
  "bytes \<Rightarrow> WasmCropOptions \<Rightarrow> (int \<rightharpoonup> PDFBBox) option \<Rightarrow> int list option
     \<Rightarrow> js_error + bytes" where
  "failingCrop data options bboxes pageRange = Inl (ThrownString ''Failed to parse PDF'')"

definition failingDetect :: "bytes \<Rightarrow> int \<Rightarrow> js_error + PDFBBox" where
  "failingDetect data pageIndex = Inl (Error ''Page is empty'')"

definition allPagesForm :: CropForm where
  "allPagesForm =
     \<lparr>marginLeft = Some 5, marginTop = Some 5, marginRight = Some 5, marginBottom = None,
      shrinkToContent = False, pageRangeSelect = Some ''all'', pageRangeText = []\<rparr>"

definition customForm :: "string \<Rightarrow> CropForm" where
  "customForm rangeText =
     \<lparr>marginLeft = Some 0, marginTop = Some 0, marginRight = Some 0, marginBottom = Some 0,
      shrinkToContent = False, pageRangeSelect = Some ''custom'', pageRangeText = rangeText\<rparr>"

text \<open>The pages a viewer holds are of positive size; with the scale bound, its invariant.\<close>

definition pagesPositive :: "PDFViewer \<Rightarrow> bool" where
  "pagesPositive v \<longleftrightarrow>
     list_all positivePage (case pdfDocument v of None \<Rightarrow> [] | Some doc \<Rightarrow> doc)
     \<and> list_all positivePage (case currentPageObject v of None \<Rightarrow> [] | Some page \<Rightarrow> [page])"

definition viewerInvariant :: "PDFViewer \<Rightarrow> bool" where
  "viewerInvariant v \<longleftrightarrow> scaleInRange v \<and> pagesPositive v"



text \<open>An application without a viewer.\<close>

definition viewerlessApp :: AppState where
  "viewerlessApp = (initialApp 300 150)\<lparr>pdfViewer := None, bboxOverlay := None\<rparr>"

section \<open>Properties of the coordinate conversion\<close>

lemma canvasToPDF_rendered:
  assumes "currentViewport v = Some vp" and "currentPageObject v = Some page"
  shows "canvasToPDF v cx cy =
           Some \<lparr>pt_x = cx / scale v, pt_y = page_height page - cy / scale v\<rparr>"
  using assms by (simp add: canvasToPDF_def getPageDimensions_def getViewport_def)

lemma pdfToCanvas_rendered:
  assumes "currentViewport v = Some vp" and "currentPageObject v = Some page"
  shows "pdfToCanvas v px py =
           Some \<lparr>pt_x = px * scale v, pt_y = (page_height page - py) * scale v\<rparr>"
  using assms by (simp add: pdfToCanvas_def getPageDimensions_def getViewport_def)

text \<open>
  Claim C4. On a rendered page (a viewport and a page object are present) with render
  scale \<open>scale > 0\<close>, \<open>canvasToPDF\<close> returns \<open>pageX = deviceX / scale\<close> and
  \<open>pageY = pageHeight - deviceY / scale\<close>; \<open>pdfToCanvas\<close> multiplies by the scale and
  flips the Y axis, and the two maps are inverse to each other.
\<close>

theorem canvasToPDF_formula_and_inverse:
  assumes "currentViewport v = Some vp" and "currentPageObject v = Some page"
    and "0 < scale v"
  shows "canvasToPDF v deviceX deviceY =
           Some \<lparr>pt_x = deviceX / scale v, pt_y = page_height page - deviceY / scale v\<rparr>
       \<and> pdfToCanvas v pageX pageY =
           Some \<lparr>pt_x = pageX * scale v, pt_y = (page_height page - pageY) * scale v\<rparr>
       \<and> Option.bind (canvasToPDF v deviceX deviceY) (\<lambda>p. pdfToCanvas v (pt_x p) (pt_y p)) =
           Some \<lparr>pt_x = deviceX, pt_y = deviceY\<rparr>
       \<and> Option.bind (pdfToCanvas v pageX pageY) (\<lambda>q. canvasToPDF v (pt_x q) (pt_y q)) =
           Some \<lparr>pt_x = pageX, pt_y = pageY\<rparr>"
  using assms(3)
  by (simp add: canvasToPDF_rendered [OF assms(1,2)] pdfToCanvas_rendered [OF assms(1,2)])

theorem canvasToPDF_formula_and_inverse_witness:
  "currentViewport (showing a4 2) = Some (getViewport a4 2)
   \<and> currentPageObject (showing a4 2) = Some a4
   \<and> 0 < scale (showing a4 2)
   \<and> canvasToPDF (showing a4 2) 100 200 = Some \<lparr>pt_x = 50, pt_y = 742\<rparr>
   \<and> pdfToCanvas (showing a4 2) 50 742 = Some \<lparr>pt_x = 100, pt_y = 200\<rparr>"
  using canvasToPDF_formula_and_inverse
          [of "showing a4 2" "getViewport a4 2" a4 100 200 50 742]
  by (simp add: showing_def a4_def)

text \<open>
  Claim C1. On a rendered page with a non-zero render scale (in particular \<open>scale > 0\<close>),
  converting a device rectangle to page coordinates with \<open>canvasRectToPDFBbox\<close> and the
  result back with \<open>pdfBboxToCanvasRect\<close> reproduces the rectangle exactly over the
  rationals, for every rectangle (those inside the canvas bounds included); the
  opposite round trip reproduces every page bounding box.
\<close>

theorem rect_bbox_round_trip:
  assumes "currentViewport v = Some vp" and "currentPageObject v = Some page"
    and "0 < scale v"
  shows "pdfBboxToCanvasRect v (canvasRectToPDFBbox v rect) = rect
       \<and> canvasRectToPDFBbox v (pdfBboxToCanvasRect v bbox) = bbox"
  using assms(3)
  by (simp add: canvasRectToPDFBbox_def pdfBboxToCanvasRect_def
      canvasToPDF_rendered [OF assms(1,2)] pdfToCanvas_rendered [OF assms(1,2)]
      field_simps)

theorem rect_bbox_round_trip_witness:
  "currentViewport (showing a4 (3 / 2)) = Some (getViewport a4 (3 / 2))
   \<and> currentPageObject (showing a4 (3 / 2)) = Some a4
   \<and> 0 < scale (showing a4 (3 / 2))
   \<and> canvasRectToPDFBbox (showing a4 (3 / 2))
        \<lparr>rect_x = 30, rect_y = 60, rect_width = 300, rect_height = 150\<rparr> =
        \<lparr>bbox_left = 20, bbox_bottom = 702, bbox_right = 220, bbox_top = 802\<rparr>
   \<and> pdfBboxToCanvasRect (showing a4 (3 / 2))
        (canvasRectToPDFBbox (showing a4 (3 / 2))
           \<lparr>rect_x = 30, rect_y = 60, rect_width = 300, rect_height = 150\<rparr>) =
        \<lparr>rect_x = 30, rect_y = 60, rect_width = 300, rect_height = 150\<rparr>"
  using rect_bbox_round_trip
          [of "showing a4 (3 / 2)" "getViewport a4 (3 / 2)" a4
              "\<lparr>rect_x = 30, rect_y = 60, rect_width = 300, rect_height = 150\<rparr>"]
  by (simp add: showing_def a4_def canvasRectToPDFBbox_def canvasToPDF_def
      getPageDimensions_def getViewport_def)

section \<open>The render scale stays between 0.5 and 3\<close>

lemma fitScale_range: "1 / 2 \<le> fitScale env page \<and> fitScale env page \<le> 3"
  by (simp add: fitScale_def Let_def)

lemma clamp_number:
  assumes "newScale \<noteq> NaN"
  shows "\<exists>s. jsMax (Num (1 / 2)) (jsMin (Num 3) newScale) = Num s \<and> 1 / 2 \<le> s \<and> s \<le> 3"
proof (cases newScale)
  case (Num r)
  then show ?thesis by simp
next
  case PosInfinity
  then show ?thesis by simp
next
  case NegInfinity
  show ?thesis unfolding NegInfinity
    by (rule exI [of _ "1 / 2"]) simp
next
  case NaN
  then show ?thesis using assms by simp
qed

lemma clamp_NaN: "jsMax (Num (1 / 2)) (jsMin (Num 3) NaN) = NaN"
  by simp

lemma getPage_member:
  assumes "getPage env doc n = Inr page"
  shows "page \<in> set doc"
  using assms by (auto simp: getPage_def split: option.splits if_splits)

lemma renderPage_scaleInRange:
  assumes "scaleInRange v"
  shows "scaleInRange (snd (renderPage env n v))"
  using assms fitScale_range [of env]
  by (auto simp: renderPage_def scaleInRange_def Let_def split: option.splits sum.splits)

lemma renderPage_pagesPositive:
  assumes "pagesPositive v"
  shows "pagesPositive (snd (renderPage env n v))"
proof (cases "pdfDocument v")
  case None
  then show ?thesis using assms by (simp add: renderPage_def)
next
  case (Some doc)
  have doc: "list_all positivePage doc"
    using assms Some by (simp add: pagesPositive_def)
  show ?thesis
  proof (cases "getPage env doc n")
    case (Inl e)
    then show ?thesis using assms Some by (simp add: renderPage_def)
  next
    case (Inr page)
    then have "positivePage page"
      using doc getPage_member [OF Inr] by (simp add: list_all_iff)
    then show ?thesis using assms Some Inr
      by (auto simp: renderPage_def pagesPositive_def Let_def split: option.splits)
  qed
qed

lemma renderPage_invariant:
  assumes "viewerInvariant v"
  shows "viewerInvariant (snd (renderPage env n v))"
  using assms
  by (simp add: viewerInvariant_def renderPage_scaleInRange renderPage_pagesPositive)

lemma setScale_invariant:
  assumes "pagesPositive v" and "newScale \<noteq> NaN"
  shows "\<exists>r. setScale env newScale v = Scaled r \<and> viewerInvariant (snd r)"
proof -
  from clamp_number [OF assms(2)] obtain s
    where s: "jsMax (Num (1 / 2)) (jsMin (Num 3) newScale) = Num s" "1 / 2 \<le> s" "s \<le> 3"
    by blast
  have "viewerInvariant (v\<lparr>scale := s, manualScale := True\<rparr>)"
    using assms(1) s(2,3) by (simp add: viewerInvariant_def scaleInRange_def pagesPositive_def)
  then have "viewerInvariant
      (snd (renderPage env (viewerCurrentPage v) (v\<lparr>scale := s, manualScale := True\<rparr>)))"
    by (rule renderPage_invariant)
  then show ?thesis by (simp add: setScale_def s(1))
qed

lemma completion_snd: "snd (completion r) = snd r"
  by (cases r) (auto simp: completion_def split: sum.splits)

lemma loadPDF_invariant:
  assumes "viewerInvariant v"
    and "case loaded of Inl e \<Rightarrow> True | Inr doc \<Rightarrow> list_all positivePage doc"
  shows "viewerInvariant (snd (loadPDF env loaded v))"
proof (cases loaded)
  case (Inl e)
  then show ?thesis using assms(1) by (simp add: loadPDF_def)
next
  case (Inr doc)
  let ?v1 = "v\<lparr>pdfDocument := Some doc, viewerTotalPages := int (length doc)\<rparr>"
  have "viewerInvariant ?v1"
    using assms Inr by (simp add: viewerInvariant_def scaleInRange_def pagesPositive_def)
  then have "viewerInvariant (snd (renderPage env 1 ?v1))"
    by (rule renderPage_invariant)
  then show ?thesis using Inr
    by (cases "renderPage env 1 ?v1") (auto simp: loadPDF_def Let_def split: sum.splits)
qed

lemma fitToWidth_invariant:
  assumes "viewerInvariant v"
  shows "\<exists>r. fitToWidth env v = Scaled r \<and> viewerInvariant (snd r)"
proof (cases "currentPageObject v")
  case None
  then show ?thesis using assms by (simp add: fitToWidth_def)
next
  case (Some page)
  have "0 < page_width page"
    using assms Some by (simp add: viewerInvariant_def pagesPositive_def positivePage_def)
  then have "jsDiv (containerWidth env) (vp_width (getViewport page 1)) \<noteq> NaN"
    by (simp add: jsDiv_def getViewport_def)
  from setScale_invariant [OF _ this, of v env] assms
  obtain r where "setScale env (jsDiv (containerWidth env) (vp_width (getViewport page 1))) v
      = Scaled r" "viewerInvariant (snd r)"
    by (auto simp: viewerInvariant_def)
  then show ?thesis using Some by (simp add: fitToWidth_def completion_snd)
qed

lemma perform_invariant:
  assumes "viewerInvariant v"
    and "positivePages [(env, op)]" and "noNaNArgument [(env, op)]"
  shows "\<exists>v1. perform env op v = Scaled v1 \<and> viewerInvariant v1"
proof (cases op)
  case (LoadPDF loaded)
  have "case loaded of Inl e \<Rightarrow> True | Inr doc \<Rightarrow> list_all positivePage doc"
    using assms(2) LoadPDF by (cases loaded) simp_all
  then show ?thesis using LoadPDF assms(1) by (simp add: loadPDF_invariant)
next
  case (SetScale s)
  then have "s \<noteq> NaN" using assms(3) by simp
  from setScale_invariant [OF _ this, of v env] assms(1) SetScale
  show ?thesis by (auto simp: viewerInvariant_def)
next
  case ZoomIn
  from setScale_invariant [of v "Num (scale v * (5 / 4))" env] assms(1) ZoomIn
  show ?thesis by (auto simp: viewerInvariant_def zoomIn_def)
next
  case ZoomOut
  from setScale_invariant [of v "Num (scale v / (5 / 4))" env] assms(1) ZoomOut
  show ?thesis by (auto simp: viewerInvariant_def zoomOut_def)
next
  case FitToWidth
  from fitToWidth_invariant [OF assms(1), of env] FitToWidth
  show ?thesis by auto
next
  case FitToPage
  have "viewerInvariant (v\<lparr>manualScale := False\<rparr>)"
    using assms(1) by (simp add: viewerInvariant_def scaleInRange_def pagesPositive_def)
  then show ?thesis using FitToPage
    by (simp add: fitToPage_def completion_snd renderPage_invariant)
qed (use assms(1) in \<open>simp_all add: renderPage_invariant goToPage_def nextPage_def
      previousPage_def completion_snd\<close>)

lemma positivePages_Cons:
  assumes "positivePages ((env, op) # ops)"
  shows "positivePages [(env, op)] \<and> positivePages ops"
proof (cases op)
  case (LoadPDF loaded)
  then show ?thesis using assms by (cases loaded) simp_all
qed (use assms in simp_all)

lemma noNaNArgument_Cons:
  assumes "noNaNArgument ((env, op) # ops)"
  shows "noNaNArgument [(env, op)] \<and> noNaNArgument ops"
  using assms by (cases op) simp_all

lemma performAll_invariant:
  assumes "viewerInvariant v" and "positivePages ops" and "noNaNArgument ops"
  shows "\<exists>v1. performAll ops v = Scaled v1 \<and> viewerInvariant v1"
  using assms
proof (induction ops arbitrary: v)
  case Nil
  then show ?case by simp
next
  case (Cons a ops)
  obtain env op where a: "a = (env, op)" by (cases a)
  from Cons.prems(2) have p: "positivePages [(env, op)]" "positivePages ops"
    unfolding a by (simp_all add: positivePages_Cons)
  from Cons.prems(3) have n: "noNaNArgument [(env, op)]" "noNaNArgument ops"
    unfolding a by (simp_all add: noNaNArgument_Cons)
  from perform_invariant [OF Cons.prems(1) p(1) n(1)]
  obtain v1 where v1: "perform env op v = Scaled v1" "viewerInvariant v1" by blast
  from Cons.IH [OF v1(2) p(2) n(2)] show ?case by (simp add: a v1(1))
qed

text \<open>
  Claim C9, as the code has it. The render scale starts at 1. After any sequence of
  \<open>loadPDF\<close>, \<open>renderPage\<close>, \<open>goToPage\<close>, \<open>nextPage\<close>, \<open>previousPage\<close>, \<open>setScale\<close>,
  \<open>zoomIn\<close>, \<open>zoomOut\<close>, \<open>fitToWidth\<close> and \<open>fitToPage\<close> calls, completed or thrown,
  with any container size, in which no \<open>setScale\<close> argument is \<open>NaN\<close> (infinities are
  allowed) and every page has a positive size, \<open>getScale()\<close> returns a number in
  \<open>[1/2, 3]\<close>.
\<close>

theorem scale_invariant:
  assumes "positivePages ops" and "noNaNArgument ops"
  shows "getScale (newPDFViewer w h) = 1
       \<and> (\<exists>s. scaleAfter (performAll ops (newPDFViewer w h)) = Num s \<and> 1 / 2 \<le> s \<and> s \<le> 3)"
proof -
  have "viewerInvariant (newPDFViewer w h)"
    by (simp add: viewerInvariant_def scaleInRange_def pagesPositive_def newPDFViewer_def)
  from performAll_invariant [OF this assms] obtain v1
    where "performAll ops (newPDFViewer w h) = Scaled v1" "viewerInvariant v1" by blast
  then show ?thesis
    by (simp add: viewerInvariant_def scaleInRange_def getScale_def newPDFViewer_def)
qed

theorem scale_invariant_witness:
  "positivePages session \<and> noNaNArgument session
   \<and> scaleAfter (performAll (take 7 session) (newPDFViewer 300 150)) = Num 3
   \<and> scaleAfter (performAll session (newPDFViewer 300 150)) = Num (1 / 2)"
proof -
  have pos: "positivePages session"
    by (simp add: session_def positivePage_def a4_def)
  have num: "noNaNArgument session"
    by (simp add: session_def)
  have 7: "scaleAfter (performAll (take 7 session) (newPDFViewer 300 150)) = Num 3"
    by (simp add: session_def wide_def a4_def newPDFViewer_def loadPDF_def renderPage_def
        getPage_def fitScale_def containerWidth_def containerHeight_def getViewport_def
        zoomIn_def setScale_def getScale_def Let_def)
  have 9: "scaleAfter (performAll session (newPDFViewer 300 150)) = Num (1 / 2)"
    by (simp add: session_def wide_def a4_def newPDFViewer_def loadPDF_def renderPage_def
        getPage_def fitScale_def containerWidth_def containerHeight_def getViewport_def
        zoomIn_def setScale_def getScale_def fitToPage_def completion_def Let_def)
  from scale_invariant [OF pos num, of 300 150] show ?thesis using pos num 7 9 by simp
qed

text \<open>
  The claim as stated fails: \<open>Math.max\<close> and \<open>Math.min\<close> let \<open>NaN\<close> through, so
  after \<open>setScale(NaN)\<close> on a loaded document \<open>getScale()\<close> is \<open>NaN\<close>.
\<close>

theorem setScale_NaN_leaves_NaN:
  "positivePages [(wide, LoadPDF (Inr [a4])), (wide, SetScale NaN)]
   \<and> scaleAfter (performAll [(wide, LoadPDF (Inr [a4])), (wide, SetScale NaN)]
        (newPDFViewer 300 150)) = NaN"
  by (simp add: positivePage_def a4_def loadPDF_def setScale_def)

section \<open>Selections stay on the page\<close>







section \<open>Sample states\<close>

lemma floor_fitted_width: "\<lfloor>279650 / 421 :: rat\<rfloor> = 664"
  by (simp add: floor_eq_iff)

lemma fittedViewer_eq:
  "fittedViewer = loadedViewer\<lparr>currentPageObject := Some a4, scale := 470 / 421,
      currentViewport := Some \<lparr>vp_width = 279650 / 421, vp_height = 940\<rparr>,
      styleWidth := 664, styleHeight := 940\<rparr>"
  by (simp add: fittedViewer_def loadedViewer_def renderPage_def newPDFViewer_def getPage_def
      wide_def a4_def fitScale_def containerWidth_def containerHeight_def getViewport_def Let_def
      floor_fitted_width)

lemma drawingApp_overlay:
  "bboxOverlay drawingApp =
     Some \<lparr>isDrawing = True, startX = 100, startY = 100, currentX = 100, currentY = 100,
           currentBbox = None\<rparr>"
  by (simp add: drawingApp_def readyApp_def initialApp_def onMouseDown_def startDrawing_def
      getCanvasCoordinates_def overlayRect_def newBBoxOverlay_def Let_def)

lemma drawingApp_fields:
  "pdfViewer drawingApp = Some fittedViewer" "currentPage drawingApp = 1"
  "pageBboxes drawingApp = Map.empty"
  by (simp_all add: drawingApp_def readyApp_def initialApp_def onMouseDown_def Let_def)

section \<open>A gesture that leaves the canvas\<close>




section \<open>What a completed gesture stores\<close>

text \<open>
  Claim C3, as the code has it. When a gesture ends (\<open>onMouseUp\<close> while drawing),
  \<open>finishDrawing\<close> hands the page bounding box to \<open>onBboxComplete\<close>, which stores it
  under \<open>currentPage - 1\<close> whenever the box is not \<open>null\<close>, that is whenever the overlay
  has a viewer. The area of the rectangle is not looked at: a zero-area rectangle is
  stored as well. The map stays as it was only without a viewer.
\<close>

theorem completed_gesture_is_stored:
  assumes "bboxOverlay app = Some ov" and "isDrawing ov"
  shows "pageBboxes (onMouseUp rect clientX clientY app) =
           (case pdfViewer app of
              None \<Rightarrow> pageBboxes app
            | Some v \<Rightarrow>
                (pageBboxes app)(currentPage app - 1 \<mapsto>
                   canvasRectToPDFBbox v
                     (getCanvasBbox rect
                        (ov\<lparr>currentX := clientX - dom_left rect,
                            currentY := clientY - dom_top rect\<rparr>))))"
  using assms
  by (simp add: onMouseUp_def finishDrawing_def getCanvasCoordinates_def canvasBboxToPdf_def
      onBboxComplete_def autoEnableClipMode_def updateBboxDisplay_def getCanvasBbox_def Let_def
      split: option.splits)

theorem completed_gesture_is_stored_witness:
  "bboxOverlay drawingApp =
     Some \<lparr>isDrawing = True, startX = 100, startY = 100, currentX = 100, currentY = 100,
           currentBbox = None\<rparr>
   \<and> isDrawing \<lparr>isDrawing = True, startX = 100, startY = 100, currentX = 100, currentY = 100,
           currentBbox = None\<rparr>
   \<and> pageBboxes (onMouseUp overlayRect 420 380 drawingApp) =
       [0 \<mapsto> \<lparr>bbox_left = 4210 / 47, bbox_bottom = 26944 / 47,
               bbox_right = 16840 / 47, bbox_top = 35364 / 47\<rparr>]"
  using completed_gesture_is_stored [OF drawingApp_overlay, of overlayRect 420 380]
  by (simp add: drawingApp_overlay drawingApp_fields getCanvasBbox_def overlayRect_def
      fittedViewer_eq loadedViewer_def newPDFViewer_def canvasRectToPDFBbox_def canvasToPDF_def
      getPageDimensions_def getViewport_def a4_def Let_def)


text \<open>
  The claim as stated fails: a click without movement at client position (120, 180) on
  the fitted page gives a rectangle of width and height 0, and the map, empty before,
  has an entry for page index 0 afterwards.
\<close>

theorem zero_area_populates_map:
  "rect_width (getCanvasBbox overlayRect
      (the (bboxOverlay (onMouseUp overlayRect 120 180 drawingApp)))) = 0
   \<and> rect_height (getCanvasBbox overlayRect
      (the (bboxOverlay (onMouseUp overlayRect 120 180 drawingApp)))) = 0
   \<and> pageBboxes drawingApp 0 = None
   \<and> pageBboxes (onMouseUp overlayRect 120 180 drawingApp) 0 =
       Some \<lparr>bbox_left = 4210 / 47, bbox_bottom = 35364 / 47,
             bbox_right = 4210 / 47, bbox_top = 35364 / 47\<rparr>
   \<and> pageBboxes (onMouseUp overlayRect 120 180 drawingApp) \<noteq> pageBboxes drawingApp"
proof -
  have m: "pageBboxes (onMouseUp overlayRect 120 180 drawingApp) 0 =
       Some \<lparr>bbox_left = 4210 / 47, bbox_bottom = 35364 / 47,
             bbox_right = 4210 / 47, bbox_top = 35364 / 47\<rparr>"
    by (simp add: onMouseUp_def drawingApp_overlay drawingApp_fields finishDrawing_def
        getCanvasCoordinates_def canvasBboxToPdf_def onBboxComplete_def autoEnableClipMode_def
        updateBboxDisplay_def getCanvasBbox_def overlayRect_def fittedViewer_eq loadedViewer_def
        newPDFViewer_def canvasRectToPDFBbox_def canvasToPDF_def getPageDimensions_def
        getViewport_def a4_def Let_def)
  have o: "bboxOverlay (onMouseUp overlayRect 120 180 drawingApp) =
     Some \<lparr>isDrawing = False, startX = 100, startY = 100, currentX = 100, currentY = 100,
           currentBbox = Some \<lparr>bbox_left = 4210 / 47, bbox_bottom = 35364 / 47,
             bbox_right = 4210 / 47, bbox_top = 35364 / 47\<rparr>\<rparr>"
    by (simp add: onMouseUp_def drawingApp_overlay drawingApp_fields finishDrawing_def
        getCanvasCoordinates_def canvasBboxToPdf_def onBboxComplete_def autoEnableClipMode_def
        updateBboxDisplay_def getCanvasBbox_def overlayRect_def fittedViewer_eq loadedViewer_def
        newPDFViewer_def canvasRectToPDFBbox_def canvasToPDF_def getPageDimensions_def
        getViewport_def a4_def Let_def)
  have n: "pageBboxes drawingApp 0 = None" by (simp add: drawingApp_fields)
  have "pageBboxes (onMouseUp overlayRect 120 180 drawingApp) \<noteq> pageBboxes drawingApp"
    using m n by (metis option.distinct(1))
  then show ?thesis unfolding o using m n
    by (simp add: getCanvasBbox_def overlayRect_def Let_def)
qed


section \<open>Conversions without a rendered page\<close>

text \<open>
  Claim C6, as the code has it. While no page is rendered (\<open>currentViewport\<close> is
  \<open>null\<close>), the point conversions \<open>canvasToPDF\<close> and \<open>pdfToCanvas\<close> return \<open>null\<close>.
  The rectangle conversions do not fail: \<open>canvasRectToPDFBbox\<close> returns the box
  \<open>{0, 0, 0, 0}\<close> and \<open>pdfBboxToCanvasRect\<close> the rectangle \<open>{0, 0, 0, 0}\<close>, and the
  overlay's \<open>canvasBboxToPdf\<close> passes that box on as a result.
\<close>

theorem conversions_without_viewport:
  assumes "currentViewport v = None"
  shows "canvasToPDF v canvasX canvasY = None
       \<and> pdfToCanvas v pdfX pdfY = None
       \<and> canvasRectToPDFBbox v rect = zeroBbox
       \<and> pdfBboxToCanvasRect v bbox = zeroRect
       \<and> canvasBboxToPdf (Some v) rect = Some zeroBbox"
  using assms
  by (simp add: canvasToPDF_def pdfToCanvas_def canvasRectToPDFBbox_def pdfBboxToCanvasRect_def
      canvasBboxToPdf_def zeroBbox_def zeroRect_def)

theorem conversions_without_viewport_witness:
  "currentViewport (newPDFViewer 300 150) = None
   \<and> canvasToPDF (newPDFViewer 300 150) 10 20 = None
   \<and> pdfToCanvas (newPDFViewer 300 150) 10 20 = None
   \<and> canvasRectToPDFBbox (newPDFViewer 300 150)
        \<lparr>rect_x = 10, rect_y = 20, rect_width = 30, rect_height = 40\<rparr> = zeroBbox"
  using conversions_without_viewport [of "newPDFViewer 300 150" 10 20 10 20
          "\<lparr>rect_x = 10, rect_y = 20, rect_width = 30, rect_height = 40\<rparr>"]
  by (simp add: newPDFViewer_def)

text \<open>
  The claim as stated fails on a freshly constructed viewer: both rectangle conversions
  return an all-zero rectangle, and the overlay receives a box, not \<open>null\<close>.
\<close>

theorem rect_conversions_fabricate_zero:
  "currentViewport (newPDFViewer 300 150) = None
   \<and> canvasRectToPDFBbox (newPDFViewer 300 150)
        \<lparr>rect_x = 10, rect_y = 20, rect_width = 30, rect_height = 40\<rparr> =
        \<lparr>bbox_left = 0, bbox_bottom = 0, bbox_right = 0, bbox_top = 0\<rparr>
   \<and> pdfBboxToCanvasRect (newPDFViewer 300 150)
        \<lparr>bbox_left = 50, bbox_bottom = 60, bbox_right = 500, bbox_top = 700\<rparr> =
        \<lparr>rect_x = 0, rect_y = 0, rect_width = 0, rect_height = 0\<rparr>
   \<and> canvasBboxToPdf (Some (newPDFViewer 300 150))
        \<lparr>rect_x = 10, rect_y = 20, rect_width = 30, rect_height = 40\<rparr> \<noteq> None"
  by (simp add: newPDFViewer_def canvasRectToPDFBbox_def pdfBboxToCanvasRect_def
      canvasToPDF_def pdfToCanvas_def canvasBboxToPdf_def)

section \<open>Loading a document\<close>

lemma pageBboxes_loadFailed [simp]: "pageBboxes (loadFailed e app) = pageBboxes app"
  by (simp add: loadFailed_def hideLoading_def alert_def)

lemma pageBboxes_renderBboxOverlay [simp]: "pageBboxes (renderBboxOverlay app) = pageBboxes app"
  by (simp add: renderBboxOverlay_def updateBboxDisplay_def split: option.splits)

lemma pageBboxes_onPageChange [simp]: "pageBboxes (onPageChange n t app) = pageBboxes app"
  by (simp add: onPageChange_def)

text \<open>
  Claim C7. Once \<open>handleFileUpload\<close> has read the file's bytes, the per-page selection
  map is empty when the handler ends, whatever the map held before and whether or not
  the viewer then loads the document.
\<close>

theorem new_document_clears_selections:
  "pageBboxes (handleFileUpload env fileName (Inr data) getDocument app) = Map.empty"
  by (simp add: handleFileUpload_def showLoading_def hideLoading_def Let_def
      split: option.splits prod.splits sum.splits)

section \<open>Failing operations\<close>

text \<open>
  Claim C8, as the code has it. When the operation fails, each handler shows an alert
  and hides the loading overlay again. A load whose file cannot be read changes nothing
  else (the loading message apart). A load that fails after the file was read, on the
  first upload as on a later one, keeps the new file's bytes and name, the emptied
  selection map and the viewer as the failed \<open>loadPDF\<close> left it; without a viewer it
  keeps them too. A failing crop and a failing auto-detect change nothing else:
  selection map, document bytes, file name, page numbers, viewer and overlay are as
  before.
\<close>

theorem failed_operations:
  "handleFileUpload env fileName (Inl readError) getDocument app =
     app\<lparr>loadingMessage := ''Loading PDF...'', loadingVisible := False,
         alerts := alerts app @
           [''Failed to load PDF: '' @
              (case readError of Error m \<Rightarrow> m | _ \<Rightarrow> ''Unknown error'')]\<rparr>
   \<and> (pdfViewer app = Some v \<and> loadPDF env (getDocument data) v = (Inl loadError, viewerAfter) \<longrightarrow>
        handleFileUpload env fileName (Inr data) getDocument app =
          app\<lparr>loadingMessage := ''Loading PDF...'', loadingVisible := False,
              alerts := alerts app @
                [''Failed to load PDF: '' @
                   (case loadError of Error m \<Rightarrow> m | _ \<Rightarrow> ''Unknown error'')],
              currentPDFData := Some data, currentPDFFilename := fileName,
              pageBboxes := Map.empty, pdfViewer := Some viewerAfter\<rparr>)
   \<and> (pdfViewer app = None \<longrightarrow>
        (handleFileUpload env fileName (Inr data) getDocument app)\<lparr>alerts := alerts app\<rparr> =
          app\<lparr>loadingMessage := ''Loading PDF...'', loadingVisible := False,
              currentPDFData := Some data, currentPDFFilename := fileName,
              pageBboxes := Map.empty\<rparr>
        \<and> butlast (alerts (handleFileUpload env fileName (Inr data) getDocument app)) =
            alerts app)
   \<and> (currentPDFData app = Some old
        \<and> cropPdf old (cropOptions form app) (bboxesObject app) (getPageRange form app) =
            Inl cropError \<longrightarrow>
        handleCrop cropPdf form app =
          app\<lparr>loadingMessage := ''Cropping PDF...'', loadingVisible := False,
              alerts := alerts app @
                [''Failed to crop PDF: '' @ errorMessageOf cropError @ consoleHint]\<rparr>)
   \<and> (currentPDFData app = Some old \<and> bboxOverlay app = Some ov
        \<and> detectBbox old (currentPage app - 1) = Inl detectError \<longrightarrow>
        handleAutoDetect detectBbox app =
          app\<lparr>loadingMessage := ''Detecting crop region...'', loadingVisible := False,
              alerts := alerts app @
                [''Failed to detect crop region: '' @ errorMessageOf detectError @ consoleHint]\<rparr>)"
proof -
  have 1: "handleFileUpload env fileName (Inl readError) getDocument app =
     app\<lparr>loadingMessage := ''Loading PDF...'', loadingVisible := False,
         alerts := alerts app @
           [''Failed to load PDF: '' @
              (case readError of Error m \<Rightarrow> m | _ \<Rightarrow> ''Unknown error'')]\<rparr>"
    by (simp add: handleFileUpload_def showLoading_def loadFailed_def hideLoading_def alert_def)
  have 2: "handleFileUpload env fileName (Inr data) getDocument app =
          app\<lparr>loadingMessage := ''Loading PDF...'', loadingVisible := False,
              alerts := alerts app @
                [''Failed to load PDF: '' @
                   (case loadError of Error m \<Rightarrow> m | _ \<Rightarrow> ''Unknown error'')],
              currentPDFData := Some data, currentPDFFilename := fileName,
              pageBboxes := Map.empty, pdfViewer := Some viewerAfter\<rparr>"
    if "pdfViewer app = Some v" "loadPDF env (getDocument data) v = (Inl loadError, viewerAfter)"
    using that
    by (simp add: handleFileUpload_def showLoading_def loadFailed_def hideLoading_def alert_def)
  have 3: "(handleFileUpload env fileName (Inr data) getDocument app)\<lparr>alerts := alerts app\<rparr> =
          app\<lparr>loadingMessage := ''Loading PDF...'', loadingVisible := False,
              currentPDFData := Some data, currentPDFFilename := fileName,
              pageBboxes := Map.empty\<rparr>"
    "butlast (alerts (handleFileUpload env fileName (Inr data) getDocument app)) = alerts app"
    if "pdfViewer app = None"
    using that
    by (simp_all add: handleFileUpload_def showLoading_def loadFailed_def hideLoading_def
        alert_def)
  have opts: "cropOptions form (showLoading m app) = cropOptions form app"
    "bboxesObject (showLoading m app) = bboxesObject app"
    "getPageRange form (showLoading m app) = getPageRange form app" for m
    by (simp_all add: cropOptions_def bboxesObject_def getPageRange_def showLoading_def
        split: option.splits)
  have 4: "handleCrop cropPdf form app =
          app\<lparr>loadingMessage := ''Cropping PDF...'', loadingVisible := False,
              alerts := alerts app @
                [''Failed to crop PDF: '' @ errorMessageOf cropError @ consoleHint]\<rparr>"
    if "currentPDFData app = Some old"
      "cropPdf old (cropOptions form app) (bboxesObject app) (getPageRange form app) =
         Inl cropError"
    using that
    by (simp add: handleCrop_def opts Let_def) (simp add: showLoading_def hideLoading_def alert_def)
  have 5: "handleAutoDetect detectBbox app =
          app\<lparr>loadingMessage := ''Detecting crop region...'', loadingVisible := False,
              alerts := alerts app @
                [''Failed to detect crop region: '' @ errorMessageOf detectError @ consoleHint]\<rparr>"
    if "currentPDFData app = Some old" "bboxOverlay app = Some ov"
      "detectBbox old (currentPage app - 1) = Inl detectError"
    using that
    by (simp add: handleAutoDetect_def showLoading_def hideLoading_def alert_def)
  show ?thesis
    by (intro conjI impI; (elim conjE)?; rule 1 2 3 4 5; assumption)
qed

lemma readyApp_fields:
  "pdfViewer readyApp = Some fittedViewer"
  "currentPDFData readyApp = Some [37, 80, 68, 70]"
  "bboxOverlay readyApp = Some newBBoxOverlay"
  "alerts readyApp = []"
  by (simp_all add: readyApp_def initialApp_def)

theorem failed_operations_witness:
  "pdfViewer (initialApp 300 150) = Some (newPDFViewer 300 150)
   \<and> currentPDFData (initialApp 300 150) = None
   \<and> loadPDF wide (rejecting [1, 2, 3]) (newPDFViewer 300 150) =
       (Inl (Error ''Failed to load PDF: Invalid PDF structure.''), newPDFViewer 300 150)
   \<and> handleFileUpload wide ''broken.pdf'' (Inr [1, 2, 3]) rejecting (initialApp 300 150) =
       (initialApp 300 150)\<lparr>loadingMessage := ''Loading PDF...'', loadingVisible := False,
         alerts := [''Failed to load PDF: Failed to load PDF: Invalid PDF structure.''],
         currentPDFData := Some [1, 2, 3], currentPDFFilename := ''broken.pdf'',
         pageBboxes := Map.empty, pdfViewer := Some (newPDFViewer 300 150)\<rparr>
   \<and> pdfViewer viewerlessApp = None
   \<and> currentPDFData (handleFileUpload wide ''broken.pdf'' (Inr [1, 2, 3]) rejecting viewerlessApp) =
       Some [1, 2, 3]
   \<and> currentPDFData readyApp = Some [37, 80, 68, 70]
   \<and> failingCrop [37, 80, 68, 70] (cropOptions allPagesForm readyApp) (bboxesObject readyApp)
         (getPageRange allPagesForm readyApp) = Inl (ThrownString ''Failed to parse PDF'')
   \<and> bboxOverlay readyApp = Some newBBoxOverlay
   \<and> failingDetect [37, 80, 68, 70] (currentPage readyApp - 1) = Inl (Error ''Page is empty'')
   \<and> handleCrop failingCrop allPagesForm readyApp =
       readyApp\<lparr>loadingMessage := ''Cropping PDF...'', loadingVisible := False,
         alerts := [''Failed to crop PDF: Failed to parse PDF'' @ consoleHint]\<rparr>
   \<and> handleAutoDetect failingDetect readyApp =
       readyApp\<lparr>loadingMessage := ''Detecting crop region...'', loadingVisible := False,
         alerts := [''Failed to detect crop region: Page is empty'' @ consoleHint]\<rparr>"
proof -
  have i: "pdfViewer (initialApp 300 150) = Some (newPDFViewer 300 150)"
    "currentPDFData (initialApp 300 150) = None" "alerts (initialApp 300 150) = []"
    by (simp_all add: initialApp_def)
  have l: "loadPDF wide (rejecting [1, 2, 3]) (newPDFViewer 300 150) =
       (Inl (Error ''Failed to load PDF: Invalid PDF structure.''), newPDFViewer 300 150)"
    by (simp add: loadPDF_def rejecting_def)
  have n: "pdfViewer viewerlessApp = None"
    by (simp add: viewerlessApp_def)
  have c: "failingCrop [37, 80, 68, 70] (cropOptions allPagesForm readyApp) (bboxesObject readyApp)
         (getPageRange allPagesForm readyApp) = Inl (ThrownString ''Failed to parse PDF'')"
    by (simp add: failingCrop_def)
  have d: "failingDetect [37, 80, 68, 70] (currentPage readyApp - 1) = Inl (Error ''Page is empty'')"
    by (simp add: failingDetect_def)
  note first = failed_operations
         [where app = "initialApp 300 150" and env = wide and getDocument = rejecting
            and data = "[1, 2, 3]" and fileName = "''broken.pdf''"
            and v = "newPDFViewer 300 150" and viewerAfter = "newPDFViewer 300 150"
            and loadError = "Error ''Failed to load PDF: Invalid PDF structure.''",
          THEN conjunct2, THEN conjunct1, THEN mp, OF conjI [OF i(1) l]]
  note none = failed_operations
         [where app = viewerlessApp and env = wide and getDocument = rejecting
            and data = "[1, 2, 3]" and fileName = "''broken.pdf''",
          THEN conjunct2, THEN conjunct2, THEN conjunct1, THEN mp, OF n]
  note crop = failed_operations
         [where app = readyApp and cropPdf = failingCrop and form = allPagesForm
            and old = "[37, 80, 68, 70]"
            and cropError = "ThrownString ''Failed to parse PDF''",
          THEN conjunct2, THEN conjunct2, THEN conjunct2, THEN conjunct1, THEN mp,
          OF conjI [OF readyApp_fields(2) c]]
  note detect = failed_operations
         [where app = readyApp and detectBbox = failingDetect and old = "[37, 80, 68, 70]"
            and ov = newBBoxOverlay and detectError = "Error ''Page is empty''",
          THEN conjunct2, THEN conjunct2, THEN conjunct2, THEN conjunct2, THEN mp,
          OF conjI [OF readyApp_fields(2) conjI [OF readyApp_fields(3) d]]]
  have a: "handleFileUpload wide ''broken.pdf'' (Inr [1, 2, 3]) rejecting (initialApp 300 150) =
       (initialApp 300 150)\<lparr>loadingMessage := ''Loading PDF...'', loadingVisible := False,
         alerts := [''Failed to load PDF: Failed to load PDF: Invalid PDF structure.''],
         currentPDFData := Some [1, 2, 3], currentPDFFilename := ''broken.pdf'',
         pageBboxes := Map.empty, pdfViewer := Some (newPDFViewer 300 150)\<rparr>"
    unfolding first by (simp add: i(3))
  have b: "currentPDFData
      (handleFileUpload wide ''broken.pdf'' (Inr [1, 2, 3]) rejecting viewerlessApp) = Some [1, 2, 3]"
  proof -
    have "currentPDFData
        ((handleFileUpload wide ''broken.pdf'' (Inr [1, 2, 3]) rejecting viewerlessApp)
           \<lparr>alerts := alerts viewerlessApp\<rparr>) = Some [1, 2, 3]"
      unfolding none [THEN conjunct1] by simp
    then show ?thesis by simp
  qed
  have k: "handleCrop failingCrop allPagesForm readyApp =
       readyApp\<lparr>loadingMessage := ''Cropping PDF...'', loadingVisible := False,
         alerts := [''Failed to crop PDF: Failed to parse PDF'' @ consoleHint]\<rparr>"
    unfolding crop by (simp add: readyApp_fields(4))
  have m: "handleAutoDetect failingDetect readyApp =
       readyApp\<lparr>loadingMessage := ''Detecting crop region...'', loadingVisible := False,
         alerts := [''Failed to detect crop region: Page is empty'' @ consoleHint]\<rparr>"
    unfolding detect by (simp add: readyApp_fields(4))
  show ?thesis
    by (intro conjI) (rule i(1) i(2) l a n b readyApp_fields(2) c readyApp_fields(3) d k m)+
qed


text \<open>
  The claim as stated fails for a load: with a selection stored for the first page and
  a document loaded, uploading a file that the library rejects hides the loading
  overlay, but the selection map is empty and the stored bytes are the new file's.
\<close>

theorem failed_load_loses_selections:
  "loadingVisible (handleFileUpload wide ''broken.pdf'' (Inr [1, 2, 3]) rejecting selectedApp) = False
   \<and> pageBboxes selectedApp 0 =
       Some \<lparr>bbox_left = 50, bbox_bottom = 60, bbox_right = 500, bbox_top = 700\<rparr>
   \<and> pageBboxes (handleFileUpload wide ''broken.pdf'' (Inr [1, 2, 3]) rejecting selectedApp) 0 = None
   \<and> currentPDFData selectedApp = Some [37, 80, 68, 70]
   \<and> currentPDFData (handleFileUpload wide ''broken.pdf'' (Inr [1, 2, 3]) rejecting selectedApp) =
       Some [1, 2, 3]
   \<and> handleFileUpload wide ''broken.pdf'' (Inr [1, 2, 3]) rejecting selectedApp \<noteq>
       selectedApp\<lparr>loadingMessage := ''Loading PDF...'',
         alerts := [''Failed to load PDF: Failed to load PDF: Invalid PDF structure.'']\<rparr>"
proof -
  have l: "loadPDF wide (rejecting [1, 2, 3]) fittedViewer =
           (Inl (Error ''Failed to load PDF: Invalid PDF structure.''), fittedViewer)"
    by (simp add: loadPDF_def rejecting_def)
  have v: "pdfViewer selectedApp = Some fittedViewer"
    by (simp add: selectedApp_def readyApp_def)
  have a: "handleFileUpload wide ''broken.pdf'' (Inr [1, 2, 3]) rejecting selectedApp =
       selectedApp\<lparr>loadingMessage := ''Loading PDF...'', loadingVisible := False,
         alerts := alerts selectedApp @ [''Failed to load PDF: Failed to load PDF: Invalid PDF structure.''],
         currentPDFData := Some [1, 2, 3], currentPDFFilename := ''broken.pdf'',
         pageBboxes := Map.empty, pdfViewer := Some fittedViewer\<rparr>"
    using v l
    by (simp add: handleFileUpload_def showLoading_def loadFailed_def hideLoading_def alert_def)
  have d: "currentPDFData selectedApp = Some [37, 80, 68, 70]"
    by (simp add: selectedApp_def readyApp_def)
  have m: "pageBboxes selectedApp 0 =
       Some \<lparr>bbox_left = 50, bbox_bottom = 60, bbox_right = 500, bbox_top = 700\<rparr>"
    by (simp add: selectedApp_def)
  have n: "handleFileUpload wide ''broken.pdf'' (Inr [1, 2, 3]) rejecting selectedApp \<noteq>
       selectedApp\<lparr>loadingMessage := ''Loading PDF...'',
         alerts := [''Failed to load PDF: Failed to load PDF: Invalid PDF structure.'']\<rparr>"
  proof
    assume "handleFileUpload wide ''broken.pdf'' (Inr [1, 2, 3]) rejecting selectedApp =
       selectedApp\<lparr>loadingMessage := ''Loading PDF...'',
         alerts := [''Failed to load PDF: Failed to load PDF: Invalid PDF structure.'']\<rparr>"
    then have "pageBboxes (handleFileUpload wide ''broken.pdf'' (Inr [1, 2, 3]) rejecting selectedApp) 0
       = pageBboxes selectedApp 0" by simp
    then show False using m by (simp add: a)
  qed
  show ?thesis using d m n by (simp add: a)
qed



section \<open>The page-range parser\<close>

lemma parse_1_3_5: "parsePageRange ''1-3,5'' = [0, 1, 2, 4]"
  by (simp add: parsePageRange_def addPart_def addRange_def setAdd_def parseInt_def
      parseDigits_def digitsValue_def isDigit_def digitValue_def trim_def isWhiteSpace_def
      upto.simps)

lemma parse_empty: "parsePageRange '''' = []"
  by (simp add: parsePageRange_def addPart_def parseInt_def parseDigits_def trim_def)

lemma parse_5_3: "parsePageRange ''5-3'' = []"
  by (simp add: parsePageRange_def addPart_def addRange_def setAdd_def parseInt_def
      parseDigits_def digitsValue_def isDigit_def digitValue_def trim_def isWhiteSpace_def
      upto.simps)

lemma getPageRange_custom:
  "getPageRange (customForm t) app =
     (if parsePageRange t = [] then None else Some (parsePageRange t))"
  by (simp add: getPageRange_def customForm_def Let_def)

text \<open>
  Claim C2, as the code has it. With the page-range select on \<open>custom\<close>, the text
  \<open>1-3,5\<close> gives the list \<open>[0, 1, 2, 4]\<close> and the empty text gives \<open>null\<close> (all
  pages). For the reversed range \<open>5-3\<close> the parser returns the empty list, which
  \<open>getPageRange\<close> turns into \<open>null\<close> as well: the reversed range selects all pages.
\<close>

theorem page_range_pipeline:
  "getPageRange (customForm ''1-3,5'') app = Some [0, 1, 2, 4]
   \<and> getPageRange (customForm '''') app = None
   \<and> parsePageRange ''5-3'' = []
   \<and> getPageRange (customForm ''5-3'') app = None"
  by (simp add: getPageRange_custom parse_1_3_5 parse_empty parse_5_3)

text \<open>
  The claim as stated fails: the pipeline does not map \<open>5-3\<close> to an empty list of
  pages; its result is the one of the empty text.
\<close>

theorem reversed_range_is_all_pages:
  "getPageRange (customForm ''5-3'') readyApp \<noteq> Some []
   \<and> getPageRange (customForm ''5-3'') readyApp = getPageRange (customForm '''') readyApp"
  by (simp add: getPageRange_custom parse_empty parse_5_3)








end
